theory Spec2Isabelle
  imports Main "HOL-Library.Word"
begin

unbundle bit_operations_syntax

section \<open>User I/O control of Grbl\_ESP32 (user\_io\_control.cpp)\<close>

text \<open>
  A shallow embedding of \<^verbatim>\<open>src/Grbl_Esp32/user_io_control.cpp\<close>: the class
  \<^verbatim>\<open>UserIoControl\<close> (one object per user I/O channel), the dispatcher
  \<^verbatim>\<open>sys_io_control\<close> and the periodic \<^verbatim>\<open>update\<close>.

  Every member function becomes a function from the object (and the hardware it drives)
  to the updated object (and hardware). The clock \<^verbatim>\<open>esp_timer_get_time()\<close> is
  an input: each place of the source that reads it takes its reading as an argument.
\<close>

type_synonym u8 = "8 word"
type_synonym u16 = "16 word"
type_synonym u32 = "32 word"

subsection \<open>The macros of user\_io\_control.h\<close>

text \<open>
  The header \<^verbatim>\<open>user_io_control.h\<close> is not among the sources, so the values of
  its macros are parameters of the model: the three mode numbers (compared with the
  \<^verbatim>\<open>uint8_t\<close> field \<^verbatim>\<open>_mode\<close>) and \<^verbatim>\<open>USER_IO_PULSE_RES_BITS\<close>.
\<close>

record user_io_h =
  USER_IO_MODE_ON_OFF :: u8
  USER_IO_MODE_SPIKE_HOLD_OFF :: u8
  USER_MODE_PWM_LOW_HIGH :: u8
  USER_IO_PULSE_RES_BITS :: nat

text \<open>
  The three mode macros are the labels of one \<^verbatim>\<open>switch\<close> in
  \<^verbatim>\<open>UserIoControl::on\<close>, so a header the file compiles with gives them pairwise
  different values.
\<close>

definition modes_distinct :: "user_io_h \<Rightarrow> bool" where
  "modes_distinct h =
     (USER_IO_MODE_ON_OFF h \<noteq> USER_IO_MODE_SPIKE_HOLD_OFF h
      \<and> USER_IO_MODE_ON_OFF h \<noteq> USER_MODE_PWM_LOW_HIGH h
      \<and> USER_IO_MODE_SPIKE_HOLD_OFF h \<noteq> USER_MODE_PWM_LOW_HIGH h)"

text \<open>
  The phase macros \<^verbatim>\<open>USER_IO_PHASE_SPIKE\<close> and \<^verbatim>\<open>USER_IO_PHASE_HOLD\<close> are
  only ever assigned to and compared with the field \<^verbatim>\<open>_phase\<close>; they are the
  constructors of an enumeration, with \<^verbatim>\<open>USER_IO_PHASE_NONE\<close> for a channel that
  has not been switched on yet.
\<close>

datatype phase = USER_IO_PHASE_NONE | USER_IO_PHASE_SPIKE | USER_IO_PHASE_HOLD

subsection \<open>The object and the hardware\<close>

text \<open>
  The fields of \<^verbatim>\<open>UserIoControl\<close>, named as in the class without the leading
  underscore. The configuration fields have the types of the setters' parameters. Times
  are microseconds as \<^verbatim>\<open>esp_timer_get_time()\<close> counts them (an
  \<^verbatim>\<open>int64_t\<close> since boot, which does not overflow in any run): they are
  integers, and \<^verbatim>\<open>_spike_end\<close> and \<^verbatim>\<open>_hold_end\<close> hold them unchanged.
\<close>

record UserIoControl =
  pin_num :: int
  channel_num :: u8
  mode :: u8
  gcode_num :: u8
  phase :: phase
  isOn :: bool
  spike_end :: int
  hold_end :: int
  spike_length :: u16
  hold_length :: u32
  spike_percent :: u8
  hold_percent :: u8
  pwm_duty_low :: u16
  pwm_duty_high :: u16
  pwm_freq :: u32
  pwm_resolution_bits :: u8

text \<open>
  The outputs: the level last written to each pin by \<^verbatim>\<open>digitalWrite\<close> and the
  duty last written to each LEDC channel by \<^verbatim>\<open>ledcWrite\<close>, which is what
  \<^verbatim>\<open>ledcRead\<close> returns. Two objects given the same pin or the same LEDC
  channel share that output.
\<close>

record hw =
  gpio :: "int \<Rightarrow> bool"
  ledc :: "u8 \<Rightarrow> u32"

definition digitalWrite :: "int \<Rightarrow> bool \<Rightarrow> hw \<Rightarrow> hw" where
  "digitalWrite pin val s = s\<lparr>gpio := (gpio s)(pin := val)\<rparr>"

definition ledcRead :: "u8 \<Rightarrow> hw \<Rightarrow> u32" where
  "ledcRead chan s = ledc s chan"

definition ledcWrite :: "u8 \<Rightarrow> u32 \<Rightarrow> hw \<Rightarrow> hw" where
  "ledcWrite chan duty s = s\<lparr>ledc := (ledc s)(chan := duty)\<rparr>"

subsection \<open>Writing a duty\<close>

text \<open>\<^verbatim>\<open>_write_pwm\<close>: the write is skipped when the channel already has the duty.\<close>

definition write_pwm :: "UserIoControl \<Rightarrow> u32 \<Rightarrow> hw \<Rightarrow> hw" where
  "write_pwm c duty s =
     (if ledcRead (channel_num c) s \<noteq> duty then ledcWrite (channel_num c) duty s else s)"

text \<open>
  Modelled from the spec: \<^verbatim>\<open>mapConstrain\<close> is declared outside the sources. The
  spec describes the percent-to-duty mapping as a linear map between the two ranges,
  truncating to integer; the argument is first constrained to the input range. It is
  used here with integer bounds and a lower output bound of 0 only, where the quotient
  is not negative and integer division is the truncation. (In single precision the
  product is exact and the rounded quotient stays on the same side of every integer
  while the output range has at most 17 bits.)
\<close>

definition mapConstrain :: "int \<Rightarrow> int \<Rightarrow> int \<Rightarrow> int \<Rightarrow> int \<Rightarrow> int" where
  "mapConstrain x in_min in_max out_min out_max =
     (let x' = (if x < in_min then in_min else if in_max < x then in_max else x)
      in (x' - in_min) * (out_max - out_min) div (in_max - in_min) + out_min)"

text \<open>
  \<^verbatim>\<open>_write_percent\<close>: the output range ends at
  \<^verbatim>\<open>(1<<USER_IO_PULSE_RES_BITS)-1\<close>, the macro and not the field
  \<^verbatim>\<open>_pwm_resolution_bits\<close>; the result is converted to \<^verbatim>\<open>uint32_t\<close>.
\<close>

definition write_percent :: "user_io_h \<Rightarrow> UserIoControl \<Rightarrow> u8 \<Rightarrow> hw \<Rightarrow> hw" where
  "write_percent h c percent s =
     (let duty = word_of_int
        (mapConstrain (uint percent) 0 100 0 (2 ^ USER_IO_PULSE_RES_BITS h - 1))
      in write_pwm c duty s)"

subsection \<open>on and off\<close>

text \<open>
  \<^verbatim>\<open>UserIoControl::on(bool isOn, uint32_t duration)\<close>. \<open>t_spike\<close> is the
  clock as read where \<^verbatim>\<open>_spike_end\<close> is computed, \<open>t_hold\<close> as read where
  \<^verbatim>\<open>_hold_end\<close> is. \<^verbatim>\<open>_spike_length * 1000\<close> is computed in
  \<^verbatim>\<open>int\<close> and cannot overflow; \<^verbatim>\<open>duration * 1000\<close> is computed in
  \<^verbatim>\<open>uint32_t\<close> and wraps around. \<open>set_hold_end\<close> is the
  \<^verbatim>\<open>if (duration == 0) ... else ...\<close> that the two timed branches have in
  common.
\<close>

definition set_hold_end :: "int \<Rightarrow> u32 \<Rightarrow> UserIoControl \<Rightarrow> UserIoControl" where
  "set_hold_end t_hold duration c =
     (if duration = 0 then c\<lparr>hold_end := 0\<rparr>
      else c\<lparr>hold_end := t_hold + uint (duration * 1000)\<rparr>)"

definition on ::
  "user_io_h \<Rightarrow> int \<Rightarrow> int \<Rightarrow> bool \<Rightarrow> u32 \<Rightarrow> UserIoControl \<Rightarrow> hw \<Rightarrow> UserIoControl \<times> hw" where
  "on h t_spike t_hold is_on duration c s =
     (let (c', s') =
        (if mode c = USER_IO_MODE_ON_OFF h then
           (c, digitalWrite (pin_num c) is_on s)
         else if mode c = USER_IO_MODE_SPIKE_HOLD_OFF h then
           (if is_on then
              (let c1 = c\<lparr>phase := USER_IO_PHASE_SPIKE\<rparr>;
                   c2 = c1\<lparr>spike_end := t_spike + uint (spike_length c1) * 1000\<rparr>;
                   c3 = set_hold_end t_hold duration c2
               in (c3, write_percent h c3 (spike_percent c3) s))
            else (c, write_pwm c 0 s))
         else if mode c = USER_MODE_PWM_LOW_HIGH h then
           (if is_on then
              (let c1 = c\<lparr>phase := USER_IO_PHASE_HOLD\<rparr>;
                   c2 = set_hold_end t_hold duration c1
               in (c2, write_pwm c2 (ucast (pwm_duty_high c2)) s))
            else (c, write_pwm c (ucast (pwm_duty_low c)) s))
         else
           (if is_on then (c, write_pwm c (push_bit (USER_IO_PULSE_RES_BITS h) 1) s)
            else (c, write_pwm c 0 s)))
      in (c'\<lparr>isOn := is_on\<rparr>, s'))"

definition off :: "user_io_h \<Rightarrow> UserIoControl \<Rightarrow> hw \<Rightarrow> UserIoControl \<times> hw" where
  "off h c s =
     (let s' =
        (if mode c = USER_IO_MODE_ON_OFF h then digitalWrite (pin_num c) False s
         else if mode c = USER_MODE_PWM_LOW_HIGH h then write_pwm c (ucast (pwm_duty_low c)) s
         else write_pwm c 0 s)
      in (c\<lparr>isOn := False\<rparr>, s'))"

subsection \<open>The setters\<close>

definition set_mode :: "u8 \<Rightarrow> UserIoControl \<Rightarrow> UserIoControl" where
  "set_mode m c = (if 0 < m \<and> m < 3 then c\<lparr>mode := m\<rparr> else c)"

definition set_pwm_freq_bits :: "u32 \<Rightarrow> u8 \<Rightarrow> UserIoControl \<Rightarrow> UserIoControl" where
  "set_pwm_freq_bits freq bit_num c =
     (let c1 = (if 50 \<le> freq \<and> freq \<le> 10000 then c\<lparr>pwm_freq := freq\<rparr> else c)
      in if 8 \<le> bit_num \<and> bit_num \<le> 16 then c1\<lparr>pwm_resolution_bits := bit_num\<rparr> else c1)"

subsection \<open>update\<close>

text \<open>
  \<^verbatim>\<open>UserIoControl::update()\<close> reads the clock at most once on every path;
  \<open>now\<close> is that reading. Each of the two mode blocks either returns
  (\<open>Some\<close> of the result) or falls through with nothing changed (\<open>None\<close>).
\<close>

definition update_spike_hold_off ::
  "user_io_h \<Rightarrow> int \<Rightarrow> UserIoControl \<Rightarrow> hw \<Rightarrow> (UserIoControl \<times> hw) option" where
  "update_spike_hold_off h now c s =
     (if phase c = USER_IO_PHASE_SPIKE \<and> spike_end c < now then
        (let c' = c\<lparr>phase := USER_IO_PHASE_HOLD\<rparr>
         in Some (c', write_percent h c' (hold_percent c') s))
      else if phase c = USER_IO_PHASE_HOLD then
        (if hold_end c = 0 then Some (c, s)
         else if hold_end c < now then Some (c\<lparr>isOn := False\<rparr>, write_pwm c 0 s)
         else None)
      else None)"

definition update_pwm_low_high ::
  "int \<Rightarrow> UserIoControl \<Rightarrow> hw \<Rightarrow> (UserIoControl \<times> hw) option" where
  "update_pwm_low_high now c s =
     (if phase c = USER_IO_PHASE_HOLD then
        (if hold_end c = 0 then Some (c, s)
         else if hold_end c < now then
           Some (c\<lparr>isOn := False\<rparr>, write_pwm c (ucast (pwm_duty_low c)) s)
         else None)
      else None)"

definition update :: "user_io_h \<Rightarrow> int \<Rightarrow> UserIoControl \<Rightarrow> hw \<Rightarrow> UserIoControl \<times> hw" where
  "update h now c s =
     (if \<not> isOn c then (c, s)
      else if mode c = USER_IO_MODE_ON_OFF h then (c, s)
      else
        (case (if mode c = USER_IO_MODE_SPIKE_HOLD_OFF h
               then update_spike_hold_off h now c s else None) of
           Some r \<Rightarrow> r
         | None \<Rightarrow>
             (case (if mode c = USER_MODE_PWM_LOW_HIGH h
                    then update_pwm_low_high now c s else None) of
                Some r \<Rightarrow> r
              | None \<Rightarrow> (c, s))))"

text \<open>
  The task \<^verbatim>\<open>userIoSyncTask\<close> calls \<^verbatim>\<open>update()\<close> on a channel again
  and again; \<open>updates\<close> is a finite run of these calls on one channel, the list giving
  the clock reading of each call in order.
\<close>

fun updates :: "user_io_h \<Rightarrow> int list \<Rightarrow> UserIoControl \<times> hw \<Rightarrow> UserIoControl \<times> hw" where
  "updates h [] cs = cs"
| "updates h (now # ts) cs = updates h ts (update h now (fst cs) (snd cs))"

subsection \<open>The dispatcher\<close>

text \<open>
  The objects \<^verbatim>\<open>Pin1_UserIoControl\<close> to \<^verbatim>\<open>Pin6_UserIoControl\<close> exist
  only where \<^verbatim>\<open>USER_DIGITAL_PIN_n\<close> is defined: \<open>pins st n\<close> is the object of
  channel \<open>n\<close>, or \<open>None\<close> when the channel is not configured. All of them drive the
  one hardware. (The file defines the objects of channels 5 and 6 under the names of
  channels 3 and 4, so it compiles only with these two channels not configured; the
  model has all six blocks of the dispatcher, as they are written.)
\<close>

record io_state =
  pins :: "nat \<rightharpoonup> UserIoControl"
  hardware :: hw

text \<open>
  \<^verbatim>\<open>sys_io_control(uint8_t io_num_mask, bool turnOn, uint16_t duration)\<close>: one
  block per channel, 1 to 6 in this order, each testing
  \<^verbatim>\<open>io_num_mask & 1<<n\<close> and returning after its call of \<^verbatim>\<open>on\<close>. The
  argument \<open>duration\<close> has 16 bits and is widened to the 32 bits of \<^verbatim>\<open>on\<close>.
  \<^verbatim>\<open>protocol_buffer_synchronize()\<close> waits for the planner and touches no channel.
\<close>

fun sys_io_control_pins ::
  "user_io_h \<Rightarrow> int \<Rightarrow> int \<Rightarrow> nat list \<Rightarrow> u8 \<Rightarrow> bool \<Rightarrow> u16 \<Rightarrow> io_state \<Rightarrow> io_state" where
  "sys_io_control_pins h t_spike t_hold [] io_num_mask turnOn duration st = st"
| "sys_io_control_pins h t_spike t_hold (n # ns) io_num_mask turnOn duration st =
     (case pins st n of
        Some c \<Rightarrow>
          if io_num_mask AND push_bit n 1 \<noteq> 0 then
            (let r = on h t_spike t_hold turnOn (ucast duration) c (hardware st)
             in st\<lparr>pins := (pins st)(n \<mapsto> fst r), hardware := snd r\<rparr>)
          else sys_io_control_pins h t_spike t_hold ns io_num_mask turnOn duration st
      | None \<Rightarrow> sys_io_control_pins h t_spike t_hold ns io_num_mask turnOn duration st)"

definition sys_io_control ::
  "user_io_h \<Rightarrow> int \<Rightarrow> int \<Rightarrow> u8 \<Rightarrow> bool \<Rightarrow> u16 \<Rightarrow> io_state \<Rightarrow> io_state" where
  "sys_io_control h t_spike t_hold io_num_mask turnOn duration st =
     sys_io_control_pins h t_spike t_hold [1, 2, 3, 4, 5, 6] io_num_mask turnOn duration st"

text \<open>
  Channel \<open>n\<close> is selected by a mask when it is configured and bit \<open>n\<close> of the mask is
  set; it is the first selected channel when no channel with a smaller number is.
\<close>

definition selected :: "io_state \<Rightarrow> u8 \<Rightarrow> nat \<Rightarrow> bool" where
  "selected st io_num_mask n = (pins st n \<noteq> None \<and> bit io_num_mask n)"

definition first_selected :: "io_state \<Rightarrow> u8 \<Rightarrow> nat \<Rightarrow> bool" where
  "first_selected st io_num_mask n =
     (1 \<le> n \<and> n \<le> 6 \<and> selected st io_num_mask n
      \<and> list_all (\<lambda>m. \<not> selected st io_num_mask m) [1..<n])"

subsection \<open>A header, a channel and a hardware state to evaluate on\<close>

text \<open>
  One admissible header (the modes numbered 0, 1, 2 and 8 bits of resolution) and the
  channel of the spec's scenario: SPIKE\_HOLD\_OFF, spike length 100 ms, spike percent 80,
  hold percent 20, resolution 8 bits, not yet switched on.
\<close>

definition example_h :: user_io_h where
  "example_h = \<lparr>USER_IO_MODE_ON_OFF = 0, USER_IO_MODE_SPIKE_HOLD_OFF = 1,
     USER_MODE_PWM_LOW_HIGH = 2, USER_IO_PULSE_RES_BITS = 8\<rparr>"

definition example_channel :: UserIoControl where
  "example_channel = \<lparr>pin_num = 25, channel_num = 0, mode = 1, gcode_num = 2,
     phase = USER_IO_PHASE_NONE, isOn = False, spike_end = 0, hold_end = 0,
     spike_length = 100, hold_length = 0, spike_percent = 80, hold_percent = 20,
     pwm_duty_low = 3276, pwm_duty_high = 6553, pwm_freq = 5000,
     pwm_resolution_bits = 8\<rparr>"

definition example_hw :: hw where
  "example_hw = \<lparr>gpio = (\<lambda>_. False), ledc = (\<lambda>_. 0)\<rparr>"

text \<open>The hardware with every pin high and every LEDC channel at duty 204.\<close>

definition example_hw_driven :: hw where
  "example_hw_driven = \<lparr>gpio = (\<lambda>_. True), ledc = (\<lambda>_. 204)\<rparr>"

definition example_spiking :: UserIoControl where
  "example_spiking = example_channel\<lparr>phase := USER_IO_PHASE_SPIKE, isOn := True,
     spike_end := 101000, hold_end := 501000\<rparr>"

text \<open>The spiking channel after \<^verbatim>\<open>set_pwm_freq_bits(5000, 16)\<close>.\<close>

definition example_spiking_16 :: UserIoControl where
  "example_spiking_16 = set_pwm_freq_bits 5000 16 example_spiking"

definition example_holding :: UserIoControl where
  "example_holding = example_channel\<lparr>phase := USER_IO_PHASE_HOLD, isOn := True, hold_end := 0\<rparr>"

definition example_pwm_holding :: UserIoControl where
  "example_pwm_holding = example_channel\<lparr>channel_num := 1, mode := 2,
     phase := USER_IO_PHASE_HOLD, isOn := True, hold_end := 501000\<rparr>"

text \<open>A channel in ON\_OFF mode that is on.\<close>

definition example_relay :: UserIoControl where
  "example_relay = example_channel\<lparr>mode := 0, isOn := True\<rparr>"

text \<open>
  A channel whose mode is none of the three of the example header (the constructor
  stores whatever \<^verbatim>\<open>uint8_t\<close> mode it is given).
\<close>

definition example_other :: UserIoControl where
  "example_other = example_channel\<lparr>mode := 7\<rparr>"

text \<open>Channels 2 and 3 configured, the others not.\<close>

definition example_state :: io_state where
  "example_state =
     \<lparr>pins = [2 \<mapsto> example_channel,
              3 \<mapsto> example_channel\<lparr>pin_num := 26, channel_num := 1, mode := 2, gcode_num := 3\<rparr>],
      hardware = example_hw\<rparr>"

section \<open>Properties\<close>

text \<open>
  C3. \<^verbatim>\<open>update()\<close> changes nothing, neither a field of the object nor an output
  of the hardware, when the on-state is false or the mode is ON\_OFF, at every time.
\<close>

theorem update_noop:
  "\<not> isOn c \<or> mode c = USER_IO_MODE_ON_OFF h \<Longrightarrow> update h now c s = (c, s)"
  by (auto simp: update_def)

theorem update_noop_witness:
  "\<not> isOn example_channel
   \<and> update example_h 5000 example_channel example_hw = (example_channel, example_hw)
   \<and> isOn example_relay \<and> mode example_relay = USER_IO_MODE_ON_OFF example_h
   \<and> update example_h 5000 example_relay example_hw = (example_relay, example_hw)"
proof -
  have a: "\<not> isOn example_channel"
    by (simp add: example_channel_def)
  have b: "isOn example_relay" "mode example_relay = USER_IO_MODE_ON_OFF example_h"
    by (simp_all add: example_relay_def example_channel_def example_h_def)
  show ?thesis
    using a b update_noop [OF disjI1 [OF a], of example_h 5000 example_hw]
      update_noop [OF disjI2 [OF b(2)], of 5000 example_hw]
    by blast
qed

subsection \<open>The dispatcher takes the first selected channel\<close>

lemma mask_bit: "(m AND 2 ^ n = 0) = (\<not> bit (m::u8) n)"
  by (simp add: bit_iff_and_push_bit_not_eq_0)

lemma pins_none:
  "list_all (\<lambda>m. \<not> selected st msk m) ns \<Longrightarrow>
   sys_io_control_pins h t1 t2 ns msk turnOn d st = st"
  by (induction ns) (auto simp: selected_def mask_bit split: option.splits)

lemma pins_first:
  "list_all (\<lambda>m. \<not> selected st msk m) ns1 \<Longrightarrow> pins st n = Some c \<Longrightarrow> bit msk n \<Longrightarrow>
   sys_io_control_pins h t1 t2 (ns1 @ n # ns2) msk turnOn d st =
     st\<lparr>pins := (pins st)(n \<mapsto> fst (on h t1 t2 turnOn (ucast d) c (hardware st))),
        hardware := snd (on h t1 t2 turnOn (ucast d) c (hardware st))\<rparr>"
  by (induction ns1) (auto simp: selected_def mask_bit Let_def split: option.splits)

lemma six_split: "1 \<le> n \<Longrightarrow> n \<le> 6 \<Longrightarrow> [1, 2, 3, 4, 5, 6] = [1..<n] @ n # [Suc n..<7]"
proof -
  assume a: "1 \<le> n" "n \<le> 6"
  have "[1, 2, 3, 4, 5, 6] = [1..<7]" by (simp add: upt_rec)
  also have "\<dots> = [1..<n] @ [n..<7]" using a upt_add_eq_append [of 1 n "7 - n"] by simp
  also have "[n..<7] = n # [Suc n..<7]" using a by (simp add: upt_conv_Cons)
  finally show ?thesis .
qed

lemma sys_io_control_first:
  "first_selected st msk n \<Longrightarrow> pins st n = Some c \<Longrightarrow>
   sys_io_control h t1 t2 msk turnOn d st =
     st\<lparr>pins := (pins st)(n \<mapsto> fst (on h t1 t2 turnOn (ucast d) c (hardware st))),
        hardware := snd (on h t1 t2 turnOn (ucast d) c (hardware st))\<rparr>"
  unfolding sys_io_control_def first_selected_def
  apply (elim conjE)
  apply (subst six_split [of n], assumption, assumption)
  apply (rule pins_first)
  apply (simp_all add: selected_def)
  done

lemma sys_io_control_none:
  "list_all (\<lambda>m. \<not> selected st msk m) [1, 2, 3, 4, 5, 6] \<Longrightarrow>
   sys_io_control h t1 t2 msk turnOn d st = st"
  unfolding sys_io_control_def by (rule pins_none)

text \<open>
  C2. For every mask, flag and duration, \<^verbatim>\<open>sys_io_control\<close> goes through the
  channels in ascending order and calls \<open>on\<close> with the flag and the duration on the first
  configured channel whose bit is set, and on no other: every other channel keeps its
  state, also when its bit is set too. When no configured channel has its bit set the
  call changes nothing; the function has no error to report.
\<close>

theorem sys_io_control_first_match:
  "(first_selected st msk n \<longrightarrow>
      (\<exists>c. pins st n = Some c
         \<and> sys_io_control h t1 t2 msk turnOn d st =
             st\<lparr>pins := (pins st)(n \<mapsto> fst (on h t1 t2 turnOn (ucast d) c (hardware st))),
                hardware := snd (on h t1 t2 turnOn (ucast d) c (hardware st))\<rparr>)
      \<and> (\<forall>m. m \<noteq> n \<longrightarrow> pins (sys_io_control h t1 t2 msk turnOn d st) m = pins st m))
   \<and> (list_all (\<lambda>m. \<not> selected st msk m) [1, 2, 3, 4, 5, 6] \<longrightarrow>
        sys_io_control h t1 t2 msk turnOn d st = st)"
proof (intro conjI impI)
  assume f: "first_selected st msk n"
  then obtain c where c: "pins st n = Some c"
    by (auto simp: first_selected_def selected_def)
  note eq = sys_io_control_first [OF f c, of h t1 t2 turnOn d]
  show "\<exists>c. pins st n = Some c
         \<and> sys_io_control h t1 t2 msk turnOn d st =
             st\<lparr>pins := (pins st)(n \<mapsto> fst (on h t1 t2 turnOn (ucast d) c (hardware st))),
                hardware := snd (on h t1 t2 turnOn (ucast d) c (hardware st))\<rparr>"
    using c eq by blast
  show "\<forall>m. m \<noteq> n \<longrightarrow> pins (sys_io_control h t1 t2 msk turnOn d st) m = pins st m"
    by (simp add: eq)
next
  assume "list_all (\<lambda>m. \<not> selected st msk m) [1, 2, 3, 4, 5, 6]"
  then show "sys_io_control h t1 t2 msk turnOn d st = st"
    by (rule sys_io_control_none)
qed

lemma isOn_on: "isOn (fst (on h t1 t2 b d c s)) = b"
  by (simp add: on_def Let_def split_def)

lemma ex_first: "first_selected example_state 12 2"
  by (simp add: first_selected_def selected_def example_state_def upt_rec)

lemma ex_none: "list_all (\<lambda>m. \<not> selected example_state 48 m) [1, 2, 3, 4, 5, 6]"
  by (simp add: selected_def example_state_def)

theorem sys_io_control_first_match_witness:
  "first_selected example_state 12 2
   \<and> isOn (the (pins (sys_io_control example_h 1000 1000 12 True 500 example_state) 2))
   \<and> pins (sys_io_control example_h 1000 1000 12 True 500 example_state) 3
       = pins example_state 3
   \<and> list_all (\<lambda>m. \<not> selected example_state 48 m) [1, 2, 3, 4, 5, 6]
   \<and> sys_io_control example_h 1000 1000 48 True 500 example_state = example_state"
proof -
  note thm12 = sys_io_control_first_match [of example_state 12 2 example_h 1000 1000 True 500]
  note thm48 = sys_io_control_first_match [of example_state 48 2 example_h 1000 1000 True 500]
  from thm12 ex_first obtain c where
    eq: "sys_io_control example_h 1000 1000 12 True 500 example_state =
           example_state\<lparr>pins := (pins example_state)
               (2 \<mapsto> fst (on example_h 1000 1000 True (ucast (500 :: u16)) c (hardware example_state))),
             hardware := snd (on example_h 1000 1000 True (ucast (500 :: u16)) c (hardware example_state))\<rparr>"
    and others: "\<forall>m. m \<noteq> 2 \<longrightarrow>
           pins (sys_io_control example_h 1000 1000 12 True 500 example_state) m
             = pins example_state m"
    by blast
  have a: "isOn (the (pins (sys_io_control example_h 1000 1000 12 True 500 example_state) 2))"
    unfolding eq by (simp add: isOn_on)
  have b: "pins (sys_io_control example_h 1000 1000 12 True 500 example_state) 3
             = pins example_state 3"
    using others by simp
  have c: "sys_io_control example_h 1000 1000 48 True 500 example_state = example_state"
    using thm48 ex_none by blast
  show ?thesis using ex_first a b ex_none c by blast
qed

subsection \<open>From the spike to the hold\<close>

text \<open>
  A SPIKE\_HOLD\_OFF channel that is on and in the SPIKE phase, updated at a time after
  \<open>spike_end\<close>: the phase becomes HOLD and the hold percent goes through
  \<^verbatim>\<open>_write_percent\<close>. Nothing else happens in this call: the channel is still
  on and \<open>hold_end\<close> is as it was, whether or not the time is after \<open>hold_end\<close> too; the
  hold timeout is left to a later call. The duty is the mapping at the resolution of the
  macro \<^verbatim>\<open>USER_IO_PULSE_RES_BITS\<close>, whatever resolution the channel has.
\<close>

lemma update_spike_hold_transition:
  "mode c = USER_IO_MODE_SPIKE_HOLD_OFF h \<Longrightarrow>
   USER_IO_MODE_ON_OFF h \<noteq> USER_IO_MODE_SPIKE_HOLD_OFF h \<Longrightarrow>
   isOn c \<Longrightarrow> phase c = USER_IO_PHASE_SPIKE \<Longrightarrow> spike_end c < now \<Longrightarrow>
   update h now c s = (c\<lparr>phase := USER_IO_PHASE_HOLD\<rparr>, write_percent h c (hold_percent c) s)
   \<and> ledc (snd (update h now c s)) (channel_num c) =
       word_of_int (mapConstrain (uint (hold_percent c)) 0 100 0 (2 ^ USER_IO_PULSE_RES_BITS h - 1))
   \<and> isOn (fst (update h now c s)) \<and> hold_end (fst (update h now c s)) = hold_end c"
  by (auto simp: update_def update_spike_hold_off_def write_percent_def write_pwm_def
      ledcRead_def ledcWrite_def Let_def)

text \<open>
  C4, at a channel where it fails. The channel is in SPIKE\_HOLD\_OFF mode, on, in the SPIKE
  phase, its resolution set to 16 bits, its hold percent 20; the macro is at 8 bits.
  \<^verbatim>\<open>update()\<close> at a time after \<open>spike_end\<close> (and after \<open>hold_end\<close>) makes the
  phase HOLD and leaves the on-state and \<open>hold_end\<close> alone, as the claim says; but the
  duty it drives is 51, the mapping of 20 percent at 8 bits, and not 13107, the mapping
  of 20 percent at the channel's 16 bits.
\<close>

theorem update_spike_to_hold_fixed_resolution:
  "mode example_spiking_16 = USER_IO_MODE_SPIKE_HOLD_OFF example_h
   \<and> isOn example_spiking_16 \<and> phase example_spiking_16 = USER_IO_PHASE_SPIKE
   \<and> pwm_resolution_bits example_spiking_16 = 16 \<and> hold_percent example_spiking_16 = 20
   \<and> spike_end example_spiking_16 < 600000 \<and> hold_end example_spiking_16 < 600000
   \<and> phase (fst (update example_h 600000 example_spiking_16 example_hw)) = USER_IO_PHASE_HOLD
   \<and> isOn (fst (update example_h 600000 example_spiking_16 example_hw))
   \<and> hold_end (fst (update example_h 600000 example_spiking_16 example_hw)) = 501000
   \<and> ledc (snd (update example_h 600000 example_spiking_16 example_hw)) 0 = 51
   \<and> mapConstrain 20 0 100 0 (2 ^ 16 - 1) = 13107"
  by (simp add: update_def update_spike_hold_off_def write_percent_def write_pwm_def
      ledcRead_def ledcWrite_def Let_def mapConstrain_def set_pwm_freq_bits_def
      example_spiking_16_def example_spiking_def example_channel_def example_h_def
      example_hw_def)

subsection \<open>off is on(false)\<close>

text \<open>
  C6. In every mode and for every duration, \<^verbatim>\<open>off()\<close> gives the same object and
  the same hardware as \<^verbatim>\<open>on(false, d)\<close>: the pin low in ON\_OFF mode, the low
  duty in PWM\_LOW\_HIGH mode, duty 0 in every other mode, and the on-state false.
\<close>

theorem off_eq_on_false:
  "modes_distinct h \<Longrightarrow>
   off h c s = on h t_spike t_hold False d c s
   \<and> \<not> isOn (fst (off h c s))
   \<and> (if mode c = USER_IO_MODE_ON_OFF h
      then gpio (snd (off h c s)) (pin_num c) = False
           \<and> ledc (snd (off h c s)) = ledc s
      else ledc (snd (off h c s)) (channel_num c) =
             (if mode c = USER_MODE_PWM_LOW_HIGH h then ucast (pwm_duty_low c) else 0))"
  by (auto simp: off_def on_def modes_distinct_def Let_def write_pwm_def
      ledcRead_def ledcWrite_def digitalWrite_def)

theorem off_eq_on_false_witness:
  "modes_distinct example_h
   \<and> off example_h example_spiking example_hw_driven
       = on example_h 7 9 False 500 example_spiking example_hw_driven
   \<and> \<not> isOn (fst (off example_h example_spiking example_hw_driven))
   \<and> ledc (snd (off example_h example_spiking example_hw_driven)) 0 = 0
   \<and> off example_h example_relay example_hw_driven
       = on example_h 7 9 False 0 example_relay example_hw_driven
   \<and> gpio (snd (off example_h example_relay example_hw_driven)) 25 = False
   \<and> off example_h example_pwm_holding example_hw_driven
       = on example_h 7 9 False 4294967295 example_pwm_holding example_hw_driven
   \<and> ledc (snd (off example_h example_pwm_holding example_hw_driven)) 1 = 3276
   \<and> off example_h example_other example_hw_driven
       = on example_h 7 9 False 1 example_other example_hw_driven
   \<and> ledc (snd (off example_h example_other example_hw_driven)) 0 = 0"
proof -
  have d: "modes_distinct example_h"
    by (simp add: modes_distinct_def example_h_def)
  have m1: "mode example_spiking \<noteq> USER_IO_MODE_ON_OFF example_h"
    "mode example_spiking \<noteq> USER_MODE_PWM_LOW_HIGH example_h"
    "channel_num example_spiking = 0"
    by (simp_all add: example_spiking_def example_channel_def example_h_def)
  have m2: "mode example_relay = USER_IO_MODE_ON_OFF example_h" "pin_num example_relay = 25"
    by (simp_all add: example_relay_def example_channel_def example_h_def)
  have m3: "mode example_pwm_holding \<noteq> USER_IO_MODE_ON_OFF example_h"
    "mode example_pwm_holding = USER_MODE_PWM_LOW_HIGH example_h"
    "channel_num example_pwm_holding = 1"
    "(ucast (pwm_duty_low example_pwm_holding) :: u32) = 3276"
    by (simp_all add: example_pwm_holding_def example_channel_def example_h_def)
  have m4: "mode example_other \<noteq> USER_IO_MODE_ON_OFF example_h"
    "mode example_other \<noteq> USER_MODE_PWM_LOW_HIGH example_h"
    "channel_num example_other = 0"
    by (simp_all add: example_other_def example_channel_def example_h_def)
  note t1 = off_eq_on_false [OF d, of example_spiking example_hw_driven 7 9 500]
  note t2 = off_eq_on_false [OF d, of example_relay example_hw_driven 7 9 0]
  note t3 = off_eq_on_false [OF d, of example_pwm_holding example_hw_driven 7 9 4294967295]
  note t4 = off_eq_on_false [OF d, of example_other example_hw_driven 7 9 1]
  have a1: "ledc (snd (off example_h example_spiking example_hw_driven)) 0 = 0"
    using t1 [THEN conjunct2, THEN conjunct2] m1 by simp
  have a2: "gpio (snd (off example_h example_relay example_hw_driven)) 25 = False"
    using t2 [THEN conjunct2, THEN conjunct2] m2 by simp
  have a3: "ledc (snd (off example_h example_pwm_holding example_hw_driven)) 1 = 3276"
    using t3 [THEN conjunct2, THEN conjunct2] m3 by simp
  have a4: "ledc (snd (off example_h example_other example_hw_driven)) 0 = 0"
    using t4 [THEN conjunct2, THEN conjunct2] m4 by simp
  show ?thesis
    using d t1 [THEN conjunct1] t1 [THEN conjunct2, THEN conjunct1] a1
      t2 [THEN conjunct1] a2 t3 [THEN conjunct1] a3 t4 [THEN conjunct1] a4
    by blast
qed

subsection \<open>The hold phase\<close>

lemma update_hold_forever:
  "modes_distinct h \<Longrightarrow>
   mode c = USER_IO_MODE_SPIKE_HOLD_OFF h \<or> mode c = USER_MODE_PWM_LOW_HIGH h \<Longrightarrow>
   phase c = USER_IO_PHASE_HOLD \<Longrightarrow> hold_end c = 0 \<Longrightarrow> update h now c s = (c, s)"
  by (auto simp: update_def update_spike_hold_off_def update_pwm_low_high_def modes_distinct_def)

lemma update_hold_waiting:
  "modes_distinct h \<Longrightarrow>
   mode c = USER_IO_MODE_SPIKE_HOLD_OFF h \<or> mode c = USER_MODE_PWM_LOW_HIGH h \<Longrightarrow>
   phase c = USER_IO_PHASE_HOLD \<Longrightarrow> now \<le> hold_end c \<Longrightarrow> update h now c s = (c, s)"
  by (auto simp: update_def update_spike_hold_off_def update_pwm_low_high_def modes_distinct_def)

lemma update_hold_expired:
  "modes_distinct h \<Longrightarrow>
   mode c = USER_IO_MODE_SPIKE_HOLD_OFF h \<or> mode c = USER_MODE_PWM_LOW_HIGH h \<Longrightarrow>
   isOn c \<Longrightarrow> phase c = USER_IO_PHASE_HOLD \<Longrightarrow> hold_end c \<noteq> 0 \<Longrightarrow> hold_end c < now \<Longrightarrow>
   update h now c s =
     (c\<lparr>isOn := False\<rparr>,
      write_pwm c (if mode c = USER_MODE_PWM_LOW_HIGH h then ucast (pwm_duty_low c) else 0) s)"
  by (auto simp: update_def update_spike_hold_off_def update_pwm_low_high_def modes_distinct_def)

lemma updates_append: "updates h (ts @ us) cs = updates h us (updates h ts cs)"
  by (induction ts arbitrary: cs) auto

lemma updates_fixed: "list_all (\<lambda>t. update h t c s = (c, s)) ts \<Longrightarrow> updates h ts (c, s) = (c, s)"
  by (induction ts) auto

lemma ledc_write_pwm: "ledc (write_pwm c duty s) (channel_num c) = duty"
  by (simp add: write_pwm_def ledcRead_def ledcWrite_def)

text \<open>
  C5. A channel in SPIKE\_HOLD\_OFF or PWM\_LOW\_HIGH mode that is on and in the HOLD phase.
  With \<open>hold_end = 0\<close>, a run of \<^verbatim>\<open>update()\<close> calls at any times leaves the
  object and the hardware as they are: the on-state is never cleared and the duty never
  changed. With \<open>hold_end \<noteq> 0\<close>, the calls at times up to \<open>hold_end\<close> change nothing, and
  the first call at a time after \<open>hold_end\<close> clears the on-state and drives duty 0 in
  SPIKE\_HOLD\_OFF mode, the low duty in PWM\_LOW\_HIGH mode.
\<close>

theorem updates_in_hold:
  "modes_distinct h \<Longrightarrow>
   mode c = USER_IO_MODE_SPIKE_HOLD_OFF h \<or> mode c = USER_MODE_PWM_LOW_HIGH h \<Longrightarrow>
   isOn c \<Longrightarrow> phase c = USER_IO_PHASE_HOLD \<Longrightarrow>
   (hold_end c = 0 \<longrightarrow> updates h ts (c, s) = (c, s))
   \<and> (hold_end c \<noteq> 0 \<and> list_all (\<lambda>t. t \<le> hold_end c) ts \<and> hold_end c < now \<longrightarrow>
        updates h ts (c, s) = (c, s)
        \<and> \<not> isOn (fst (updates h (ts @ [now]) (c, s)))
        \<and> ledc (snd (updates h (ts @ [now]) (c, s))) (channel_num c) =
            (if mode c = USER_MODE_PWM_LOW_HIGH h then ucast (pwm_duty_low c) else 0))"
proof (intro conjI impI)
  assume a: "modes_distinct h"
    "mode c = USER_IO_MODE_SPIKE_HOLD_OFF h \<or> mode c = USER_MODE_PWM_LOW_HIGH h"
    "isOn c" "phase c = USER_IO_PHASE_HOLD"
  {
    assume z: "hold_end c = 0"
    have "list_all (\<lambda>t. update h t c s = (c, s)) ts"
      using a z by (simp add: list_all_iff update_hold_forever)
    then show "updates h ts (c, s) = (c, s)" by (rule updates_fixed)
  }
  assume b: "hold_end c \<noteq> 0 \<and> list_all (\<lambda>t. t \<le> hold_end c) ts \<and> hold_end c < now"
  have "list_all (\<lambda>t. update h t c s = (c, s)) ts"
    using a b by (simp add: list_all_iff update_hold_waiting)
  then show stay: "updates h ts (c, s) = (c, s)" by (rule updates_fixed)
  have last: "updates h (ts @ [now]) (c, s) =
      (c\<lparr>isOn := False\<rparr>,
       write_pwm c (if mode c = USER_MODE_PWM_LOW_HIGH h then ucast (pwm_duty_low c) else 0) s)"
    using a b by (simp add: updates_append stay update_hold_expired)
  show "\<not> isOn (fst (updates h (ts @ [now]) (c, s)))"
    by (simp add: last)
  show "ledc (snd (updates h (ts @ [now]) (c, s))) (channel_num c) =
            (if mode c = USER_MODE_PWM_LOW_HIGH h then ucast (pwm_duty_low c) else 0)"
    unfolding last by (simp only: snd_conv ledc_write_pwm)
qed

theorem updates_in_hold_witness:
  "modes_distinct example_h
   \<and> mode example_holding = USER_IO_MODE_SPIKE_HOLD_OFF example_h
   \<and> isOn example_holding \<and> phase example_holding = USER_IO_PHASE_HOLD
   \<and> hold_end example_holding = 0
   \<and> updates example_h [600000, 4000000000] (example_holding, example_hw)
       = (example_holding, example_hw)
   \<and> mode example_pwm_holding = USER_MODE_PWM_LOW_HIGH example_h
   \<and> isOn example_pwm_holding \<and> phase example_pwm_holding = USER_IO_PHASE_HOLD
   \<and> hold_end example_pwm_holding \<noteq> 0
   \<and> list_all (\<lambda>t. t \<le> hold_end example_pwm_holding) [200000, 501000]
   \<and> hold_end example_pwm_holding < 501001
   \<and> \<not> isOn (fst (updates example_h ([200000, 501000] @ [501001])
         (example_pwm_holding, example_hw)))
   \<and> ledc (snd (updates example_h ([200000, 501000] @ [501001])
         (example_pwm_holding, example_hw))) 1 = 3276"
proof -
  have d: "modes_distinct example_h"
    by (simp add: modes_distinct_def example_h_def)
  have p1: "mode example_holding = USER_IO_MODE_SPIKE_HOLD_OFF example_h"
    "isOn example_holding" "phase example_holding = USER_IO_PHASE_HOLD"
    "hold_end example_holding = 0"
    by (simp_all add: example_holding_def example_channel_def example_h_def)
  have p2: "mode example_pwm_holding = USER_MODE_PWM_LOW_HIGH example_h"
    "isOn example_pwm_holding" "phase example_pwm_holding = USER_IO_PHASE_HOLD"
    "hold_end example_pwm_holding \<noteq> 0"
    "list_all (\<lambda>t. t \<le> hold_end example_pwm_holding) [200000, 501000]"
    "hold_end example_pwm_holding < 501001"
    by (simp_all add: example_pwm_holding_def example_channel_def example_h_def)
  have v: "channel_num example_pwm_holding = 1"
    "(ucast (pwm_duty_low example_pwm_holding) :: u32) = 3276"
    by (simp_all add: example_pwm_holding_def example_channel_def)
  note t1 = updates_in_hold [OF d disjI1 [OF p1(1)] p1(2,3),
      where ts = "[600000, 4000000000]" and s = example_hw]
  note t2 = updates_in_hold [OF d disjI2 [OF p2(1)] p2(2,3),
      where ts = "[200000, 501000]" and s = example_hw and now = 501001]
  have a: "updates example_h [600000, 4000000000] (example_holding, example_hw)
       = (example_holding, example_hw)"
    using t1 p1(4) by blast
  have b: "\<not> isOn (fst (updates example_h ([200000, 501000] @ [501001])
         (example_pwm_holding, example_hw)))"
    using t2 p2 by blast
  have "ledc (snd (updates example_h ([200000, 501000] @ [501001])
         (example_pwm_holding, example_hw))) (channel_num example_pwm_holding) =
            (if mode example_pwm_holding = USER_MODE_PWM_LOW_HIGH example_h
             then ucast (pwm_duty_low example_pwm_holding) else 0)"
    using t2 p2 by blast
  then have c: "ledc (snd (updates example_h ([200000, 501000] @ [501001])
         (example_pwm_holding, example_hw))) 1 = 3276"
    using p2(1) v by simp
  show ?thesis using d p1 p2 a b c by blast
qed

subsection \<open>The setters\<close>

lemma u8_between: "(0 < m \<and> m < 3) = (m = 1 \<or> m = (2::u8))"
  by (auto simp: word_less_nat_alt unat_gt_0; unat_arith?)

text \<open>
  C8, as amended. \<^verbatim>\<open>set_mode(m)\<close> stores \<open>m\<close> exactly when \<open>m\<close> is 1 or 2 (the
  guard is \<^verbatim>\<open>mode > 0 && mode < 3\<close>) and leaves the mode as it was for every other
  value. \<^verbatim>\<open>set_pwm_freq_bits(f, b)\<close> stores the frequency exactly when \<open>f\<close> is in
  [50, 10000] and the resolution bits exactly when \<open>b\<close> is in [8, 16]; an argument out of
  range leaves its field as it was, and nothing else of the object changes.
\<close>

theorem set_mode_set_pwm_freq_bits:
  "set_mode m c = (if m = 1 \<or> m = 2 then c\<lparr>mode := m\<rparr> else c)
   \<and> set_pwm_freq_bits freq bit_num c =
       c\<lparr>pwm_freq := (if 50 \<le> freq \<and> freq \<le> 10000 then freq else pwm_freq c),
         pwm_resolution_bits :=
           (if 8 \<le> bit_num \<and> bit_num \<le> 16 then bit_num else pwm_resolution_bits c)\<rparr>"
  by (simp add: set_mode_def set_pwm_freq_bits_def u8_between Let_def)

text \<open>
  The guard lets two values through, so whatever pairwise different numbers the header
  gives the three modes, one of them is refused.
\<close>

lemma set_mode_rejects_one:
  assumes "modes_distinct h"
  shows "\<exists>m. (m = USER_IO_MODE_ON_OFF h \<or> m = USER_IO_MODE_SPIKE_HOLD_OFF h
              \<or> m = USER_MODE_PWM_LOW_HIGH h) \<and> set_mode m c = c"
  using assms unfolding modes_distinct_def set_mode_def u8_between by metis

text \<open>
  C8 as stated fails: \<^verbatim>\<open>set_mode\<close> does not store every one of the three
  enumerated modes. The values 0 and 3 next to the guard's range leave the mode of the
  example channel at 1, and no header with pairwise different mode numbers has all three
  of its modes stored.
\<close>

theorem set_mode_counterexample:
  "mode (set_mode 0 example_channel) = 1 \<and> mode (set_mode 3 example_channel) = 1
   \<and> \<not> (\<exists>h. modes_distinct h
          \<and> mode (set_mode (USER_IO_MODE_ON_OFF h) example_channel) = USER_IO_MODE_ON_OFF h
          \<and> mode (set_mode (USER_IO_MODE_SPIKE_HOLD_OFF h) example_channel)
              = USER_IO_MODE_SPIKE_HOLD_OFF h
          \<and> mode (set_mode (USER_MODE_PWM_LOW_HIGH h) example_channel)
              = USER_MODE_PWM_LOW_HIGH h)"
proof (intro conjI notI)
  show "mode (set_mode 0 example_channel) = 1" "mode (set_mode 3 example_channel) = 1"
    by (simp_all add: set_mode_def example_channel_def)
next
  assume "\<exists>h. modes_distinct h
          \<and> mode (set_mode (USER_IO_MODE_ON_OFF h) example_channel) = USER_IO_MODE_ON_OFF h
          \<and> mode (set_mode (USER_IO_MODE_SPIKE_HOLD_OFF h) example_channel)
              = USER_IO_MODE_SPIKE_HOLD_OFF h
          \<and> mode (set_mode (USER_MODE_PWM_LOW_HIGH h) example_channel)
              = USER_MODE_PWM_LOW_HIGH h"
  then obtain h where h: "modes_distinct h"
    "mode (set_mode (USER_IO_MODE_ON_OFF h) example_channel) = USER_IO_MODE_ON_OFF h"
    "mode (set_mode (USER_IO_MODE_SPIKE_HOLD_OFF h) example_channel)
              = USER_IO_MODE_SPIKE_HOLD_OFF h"
    "mode (set_mode (USER_MODE_PWM_LOW_HIGH h) example_channel) = USER_MODE_PWM_LOW_HIGH h"
    by blast
  have m: "mode example_channel = 1" by (simp add: example_channel_def)
  have k: "\<And>x. mode (set_mode x example_channel) = x \<Longrightarrow> x = 1 \<or> x = 2"
    by (simp add: set_mode_def u8_between m split: if_splits)
  from h(2-4) [THEN k] h(1) show False
    by (auto simp: modes_distinct_def)
qed

subsection \<open>A mode outside the enumeration\<close>

text \<open>
  C9, as amended. For a channel whose mode is none of the three enumerated values and
  whose resolution is that of the macro \<^verbatim>\<open>USER_IO_PULSE_RES_BITS\<close>,
  \<^verbatim>\<open>on(true, d)\<close> drives the duty \<open>2 ^ resolution_bits\<close>, which is one above
  \<open>2 ^ resolution_bits - 1\<close>, and \<^verbatim>\<open>on(false, d)\<close> drives duty 0, for every \<open>d\<close>.
\<close>

theorem on_default_mode:
  "mode c \<noteq> USER_IO_MODE_ON_OFF h \<Longrightarrow> mode c \<noteq> USER_IO_MODE_SPIKE_HOLD_OFF h \<Longrightarrow>
   mode c \<noteq> USER_MODE_PWM_LOW_HIGH h \<Longrightarrow>
   unat (pwm_resolution_bits c) = USER_IO_PULSE_RES_BITS h \<Longrightarrow>
   on h t_spike t_hold True d c s
     = (c\<lparr>isOn := True\<rparr>, write_pwm c (2 ^ unat (pwm_resolution_bits c)) s)
   \<and> ledc (snd (on h t_spike t_hold True d c s)) (channel_num c)
       = 2 ^ unat (pwm_resolution_bits c)
   \<and> ledc (snd (on h t_spike t_hold True d c s)) (channel_num c)
       \<noteq> 2 ^ unat (pwm_resolution_bits c) - 1
   \<and> on h t_spike t_hold False d c s = (c\<lparr>isOn := False\<rparr>, write_pwm c 0 s)
   \<and> ledc (snd (on h t_spike t_hold False d c s)) (channel_num c) = 0"
  by (simp add: on_def ledc_write_pwm)

theorem on_default_mode_witness:
  "mode example_other \<noteq> USER_IO_MODE_ON_OFF example_h
   \<and> mode example_other \<noteq> USER_IO_MODE_SPIKE_HOLD_OFF example_h
   \<and> mode example_other \<noteq> USER_MODE_PWM_LOW_HIGH example_h
   \<and> unat (pwm_resolution_bits example_other) = USER_IO_PULSE_RES_BITS example_h
   \<and> ledc (snd (on example_h 1000 1000 True 500 example_other example_hw)) 0 = 256
   \<and> ledc (snd (on example_h 1000 1000 False 500 example_other example_hw_driven)) 0 = 0"
proof -
  have pre: "mode example_other \<noteq> USER_IO_MODE_ON_OFF example_h"
    "mode example_other \<noteq> USER_IO_MODE_SPIKE_HOLD_OFF example_h"
    "mode example_other \<noteq> USER_MODE_PWM_LOW_HIGH example_h"
    "unat (pwm_resolution_bits example_other) = USER_IO_PULSE_RES_BITS example_h"
    by (simp_all add: example_other_def example_channel_def example_h_def)
  have v: "channel_num example_other = 0" "pwm_resolution_bits example_other = 8"
    by (simp_all add: example_other_def example_channel_def)
  note t = on_default_mode [OF pre, of 1000 1000 500 example_hw]
  note t' = on_default_mode [OF pre, of 1000 1000 500 example_hw_driven]
  have a: "ledc (snd (on example_h 1000 1000 True 500 example_other example_hw)) 0 = 256"
    using t [THEN conjunct2, THEN conjunct1] v by simp
  have b: "ledc (snd (on example_h 1000 1000 False 500 example_other example_hw_driven)) 0 = 0"
    using t' [THEN conjunct2, THEN conjunct2, THEN conjunct2, THEN conjunct2] v by simp
  show ?thesis using pre a b by blast
qed

text \<open>
  C9 as stated fails: with 8 bits of resolution (both the macro and the field), a channel
  in mode 7 that is switched on gets the duty 256, not \<open>2 ^ 8 - 1 = 255\<close>.
\<close>

theorem on_default_mode_counterexample:
  "mode example_other \<noteq> USER_IO_MODE_ON_OFF example_h
   \<and> mode example_other \<noteq> USER_IO_MODE_SPIKE_HOLD_OFF example_h
   \<and> mode example_other \<noteq> USER_MODE_PWM_LOW_HIGH example_h
   \<and> pwm_resolution_bits example_other = 8 \<and> USER_IO_PULSE_RES_BITS example_h = 8
   \<and> ledc (snd (on example_h 1000 1000 True 0 example_other example_hw)) 0 = 256
   \<and> (2 ^ 8 - 1 :: u32) = 255"
  by (simp add: on_def example_other_def example_channel_def example_h_def example_hw_def
      write_pwm_def ledcRead_def ledcWrite_def)

subsection \<open>The duration through the dispatcher\<close>

lemma widen_16: "(ucast (word_of_int v :: u16) :: u32) = word_of_int (v mod 65536)"
  by (simp add: unsigned_of_int take_bit_eq_mod)

lemma uint_u16_ms: "uint (ucast (d :: u16) * 1000 :: u32) = uint d * 1000"
proof -
  have "uint d < 65536" using uint_bounded [of d] by simp
  then have "uint d * 1000 < 2 ^ 32" by simp
  moreover have "0 \<le> uint d * 1000" by simp
  ultimately show ?thesis
    by (simp add: uint_word_ariths uint_up_ucast is_up)
qed

lemma hold_end_on:
  "modes_distinct h \<Longrightarrow>
   mode c = USER_IO_MODE_SPIKE_HOLD_OFF h \<or> mode c = USER_MODE_PWM_LOW_HIGH h \<Longrightarrow>
   hold_end (fst (on h t_spike t_hold True d c s))
     = (if d = 0 then 0 else t_hold + uint (d * 1000))"
  by (auto simp: on_def modes_distinct_def Let_def set_hold_end_def)

lemma widen_eq_0: "((ucast (d :: u16) :: u32) = 0) = (d = 0)"
  by (simp add: word_uint_eq_iff uint_up_ucast is_up)

text \<open>
  C10. The parameter \<open>duration\<close> of \<^verbatim>\<open>sys_io_control\<close> has 16 bits: whatever
  integer \<open>v\<close> the caller passes, the selected channel's \<^verbatim>\<open>on\<close> receives
  \<open>v mod 2 ^ 16\<close>. So a timed channel switched on through the dispatcher gets
  \<open>hold_end = 0\<close> or a \<open>hold_end\<close> less than 65536 ms after the clock reading, for every
  value of the parameter, while \<^verbatim>\<open>on(true, 65536)\<close> called directly sets
  \<open>hold_end\<close> 65536 ms after it.
\<close>

theorem sys_io_control_duration_16_bits:
  "first_selected st msk n \<Longrightarrow> pins st n = Some c \<Longrightarrow>
   sys_io_control h t_spike t_hold msk turnOn (word_of_int v) st =
     st\<lparr>pins := (pins st)(n \<mapsto>
            fst (on h t_spike t_hold turnOn (word_of_int (v mod 65536)) c (hardware st))),
        hardware := snd (on h t_spike t_hold turnOn (word_of_int (v mod 65536)) c (hardware st))\<rparr>
   \<and> (modes_distinct h
        \<and> (mode c = USER_IO_MODE_SPIKE_HOLD_OFF h \<or> mode c = USER_MODE_PWM_LOW_HIGH h) \<longrightarrow>
       (if d = 0
        then hold_end (the (pins (sys_io_control h t_spike t_hold msk True d st) n)) = 0
        else hold_end (the (pins (sys_io_control h t_spike t_hold msk True d st) n))
               = t_hold + uint d * 1000
             \<and> hold_end (the (pins (sys_io_control h t_spike t_hold msk True d st) n))
               < t_hold + 65536000)
       \<and> hold_end (fst (on h t_spike t_hold True 65536 c s)) = t_hold + 65536000)"
proof (intro conjI impI)
  assume a: "first_selected st msk n" "pins st n = Some c"
  show "sys_io_control h t_spike t_hold msk turnOn (word_of_int v) st =
     st\<lparr>pins := (pins st)(n \<mapsto>
            fst (on h t_spike t_hold turnOn (word_of_int (v mod 65536)) c (hardware st))),
        hardware := snd (on h t_spike t_hold turnOn (word_of_int (v mod 65536)) c (hardware st))\<rparr>"
    by (simp only: sys_io_control_first [OF a] widen_16)
  assume "modes_distinct h
        \<and> (mode c = USER_IO_MODE_SPIKE_HOLD_OFF h \<or> mode c = USER_MODE_PWM_LOW_HIGH h)"
  then have b: "modes_distinct h"
    "mode c = USER_IO_MODE_SPIKE_HOLD_OFF h \<or> mode c = USER_MODE_PWM_LOW_HIGH h"
    by blast+
  have he: "hold_end (the (pins (sys_io_control h t_spike t_hold msk True d st) n))
      = (if d = 0 then 0 else t_hold + uint d * 1000)"
    by (simp add: sys_io_control_first [OF a] hold_end_on [OF b] uint_u16_ms widen_eq_0)
  have "uint d < 65536" using uint_bounded [of d] by simp
  with he show "if d = 0
       then hold_end (the (pins (sys_io_control h t_spike t_hold msk True d st) n)) = 0
       else hold_end (the (pins (sys_io_control h t_spike t_hold msk True d st) n))
              = t_hold + uint d * 1000
            \<and> hold_end (the (pins (sys_io_control h t_spike t_hold msk True d st) n))
              < t_hold + 65536000"
    by auto
  show "hold_end (fst (on h t_spike t_hold True 65536 c s)) = t_hold + 65536000"
    by (simp add: hold_end_on [OF b])
qed

theorem sys_io_control_duration_16_bits_witness:
  "first_selected example_state 12 2 \<and> pins example_state 2 = Some example_channel
   \<and> modes_distinct example_h
   \<and> mode example_channel = USER_IO_MODE_SPIKE_HOLD_OFF example_h
   \<and> sys_io_control example_h 1000 1000 12 True (word_of_int 65537) example_state
       = sys_io_control example_h 1000 1000 12 True 1 example_state
   \<and> hold_end (the (pins (sys_io_control example_h 1000 1000 12 True 65535 example_state) 2))
       = 65536000
   \<and> hold_end (fst (on example_h 1000 1000 True 65536 example_channel example_hw))
       = 65537000"
proof -
  have f: "first_selected example_state 12 2"
    by (simp add: first_selected_def selected_def example_state_def upt_rec)
  have p: "pins example_state 2 = Some example_channel"
    by (simp add: example_state_def)
  have d: "modes_distinct example_h"
    by (simp add: modes_distinct_def example_h_def)
  have m: "mode example_channel = USER_IO_MODE_SPIKE_HOLD_OFF example_h"
    by (simp add: example_channel_def example_h_def)
  note t = sys_io_control_duration_16_bits [OF f p, where h = example_h]
  note t' = t [THEN conjunct2, rule_format, OF conjI [OF d disjI1 [OF m]]]
  have a: "sys_io_control example_h 1000 1000 12 True (word_of_int 65537) example_state
       = sys_io_control example_h 1000 1000 12 True 1 example_state"
    using t [where v = 65537 and t_spike = 1000 and t_hold = 1000 and turnOn = True,
        THEN conjunct1]
      t [where v = 1 and t_spike = 1000 and t_hold = 1000 and turnOn = True,
        THEN conjunct1]
    by simp
  have b: "hold_end (the (pins (sys_io_control example_h 1000 1000 12 True 65535 example_state) 2))
       = 65536000"
    using t' [where d = 65535 and t_spike = 1000 and t_hold = 1000, THEN conjunct1]
    by simp
  have c: "hold_end (fst (on example_h 1000 1000 True 65536 example_channel example_hw))
       = 65537000"
    using t' [where t_spike = 1000 and t_hold = 1000 and s = example_hw, THEN conjunct2]
    by simp
  show ?thesis using f p d m a b c by blast
qed

subsection \<open>Switching a SPIKE\_HOLD\_OFF channel on\<close>

text \<open>
  What \<^verbatim>\<open>on(true, duration)\<close> does in SPIKE\_HOLD\_OFF mode, for every duration:
  the product \<^verbatim>\<open>duration * 1000\<close> is taken modulo \<open>2 ^ 32\<close>. Up to 4294967 ms
  the product does not wrap and \<open>hold_end\<close> is the clock reading plus the duration.
\<close>

lemma on_spike_hold_off_true:
  "mode c = USER_IO_MODE_SPIKE_HOLD_OFF h \<Longrightarrow>
   USER_IO_MODE_ON_OFF h \<noteq> USER_IO_MODE_SPIKE_HOLD_OFF h \<Longrightarrow>
   on h t_spike t_hold True d c s =
     (c\<lparr>phase := USER_IO_PHASE_SPIKE,
        spike_end := t_spike + uint (spike_length c) * 1000,
        hold_end := (if d = 0 then 0 else t_hold + uint d * 1000 mod 2 ^ 32),
        isOn := True\<rparr>,
      write_percent h c (spike_percent c) s)"
  by (simp add: on_def Let_def set_hold_end_def uint_word_ariths write_percent_def write_pwm_def)

lemma on_spike_hold_off_small:
  "mode c = USER_IO_MODE_SPIKE_HOLD_OFF h \<Longrightarrow>
   USER_IO_MODE_ON_OFF h \<noteq> USER_IO_MODE_SPIKE_HOLD_OFF h \<Longrightarrow> d \<le> 4294967 \<Longrightarrow>
   hold_end (fst (on h t_spike t_hold True d c s))
     = (if d = 0 then 0 else t_hold + uint d * 1000)"
proof -
  assume a: "mode c = USER_IO_MODE_SPIKE_HOLD_OFF h"
    "USER_IO_MODE_ON_OFF h \<noteq> USER_IO_MODE_SPIKE_HOLD_OFF h" and d: "d \<le> 4294967"
  from d have "uint d \<le> 4294967" by (simp add: word_le_def)
  then have "uint d * 1000 mod 2 ^ 32 = uint d * 1000" by simp
  then show ?thesis by (simp add: on_spike_hold_off_true [OF a])
qed

text \<open>
  C1, at a duration where it fails. \<^verbatim>\<open>on(true, 4294968)\<close> on the example channel,
  the clock reading 1000: the phase is SPIKE, \<open>spike_end\<close> is the reading plus the
  100 ms of the spike, the on-state is true and the duty is the mapping of the spike
  percent (204 for 80 percent at 8 bits), as the claim says; but \<open>hold_end\<close> is
  704 microseconds after the reading, since \<open>4294968 * 1000 mod 2 ^ 32 = 704\<close>, and not
  4294968 ms after it.
\<close>

theorem on_duration_overflow:
  "mode example_channel = USER_IO_MODE_SPIKE_HOLD_OFF example_h
   \<and> phase (fst (on example_h 1000 1000 True 4294968 example_channel example_hw))
       = USER_IO_PHASE_SPIKE
   \<and> spike_end (fst (on example_h 1000 1000 True 4294968 example_channel example_hw))
       = 1000 + 100 * 1000
   \<and> isOn (fst (on example_h 1000 1000 True 4294968 example_channel example_hw))
   \<and> ledc (snd (on example_h 1000 1000 True 4294968 example_channel example_hw)) 0 = 204
   \<and> hold_end (fst (on example_h 1000 1000 True 4294968 example_channel example_hw))
       = 1000 + 704
   \<and> hold_end (fst (on example_h 1000 1000 True 4294968 example_channel example_hw))
       \<noteq> 1000 + 4294968 * 1000"
  by (simp add: on_def Let_def set_hold_end_def example_channel_def example_h_def example_hw_def
      write_percent_def write_pwm_def ledcRead_def ledcWrite_def mapConstrain_def)

subsection \<open>The percent-to-duty mapping\<close>

text \<open>
  The duty \<^verbatim>\<open>_write_percent\<close> drives: the percent, at most 100, times
  \<open>2 ^ USER_IO_PULSE_RES_BITS - 1\<close>, divided by 100 and truncated. The field
  \<^verbatim>\<open>_pwm_resolution_bits\<close> that \<^verbatim>\<open>set_pwm_freq_bits\<close> sets has no part in
  it. In terms of the macro's resolution the mapping is as C7 describes it: 0 at 0, the
  full range at 100, monotonic, 204 and 51 for 80 and 20 percent at 8 bits.
\<close>

lemma write_percent_duty:
  "ledc (write_percent h c p s) (channel_num c)
     = word_of_int (min (uint p) 100 * (2 ^ USER_IO_PULSE_RES_BITS h - 1) div 100)"
  by (simp add: write_percent_def ledc_write_pwm mapConstrain_def Let_def min_def)

lemma write_percent_set_pwm_freq_bits:
  "write_percent h (set_pwm_freq_bits freq bit_num c) p s = write_percent h c p s"
  by (simp add: write_percent_def write_pwm_def set_pwm_freq_bits_def Let_def)

lemma mapConstrain_clamp:
  "mapConstrain p 0 100 0 m = max 0 (min 100 p) * m div 100"
  by (simp add: mapConstrain_def Let_def max_def min_def)

lemma mapConstrain_percent:
  "mapConstrain 0 0 100 0 m = 0"
  "mapConstrain 100 0 100 0 m = m"
  "mapConstrain 80 0 100 0 (2 ^ 8 - 1) = 204"
  "mapConstrain 20 0 100 0 (2 ^ 8 - 1) = 51"
  by (simp_all add: mapConstrain_def)

lemma mapConstrain_mono:
  assumes "0 \<le> m" "p \<le> q"
  shows "mapConstrain p 0 100 0 m \<le> mapConstrain q 0 100 0 m"
proof -
  have "max 0 (min 100 p) \<le> max 0 (min 100 q)" using assms(2) by simp
  then have "max 0 (min 100 p) * m \<le> max 0 (min 100 q) * m"
    using assms(1) by (rule mult_right_mono)
  then show ?thesis
    unfolding mapConstrain_clamp by (rule zdiv_mono1) simp
qed

text \<open>
  C7, at a channel where it fails. After \<^verbatim>\<open>set_pwm_freq_bits(5000, 16)\<close> the
  channel's resolution is 16 bits, and with the macro at 8 bits
  \<^verbatim>\<open>_write_percent(100)\<close> drives the duty 255, not \<open>2 ^ 16 - 1 = 65535\<close>.
\<close>

theorem write_percent_fixed_resolution:
  "pwm_resolution_bits (set_pwm_freq_bits 5000 16 example_channel) = 16
   \<and> ledc (write_percent example_h (set_pwm_freq_bits 5000 16 example_channel) 100 example_hw) 0
       = 255
   \<and> (2 ^ 16 - 1 :: u32) = 65535"
  by (simp add: set_pwm_freq_bits_def Let_def example_channel_def example_h_def example_hw_def
      write_percent_def write_pwm_def ledcRead_def ledcWrite_def mapConstrain_def)

end
